theory Spec2Isabelle
  imports Main "HOL-Library.Word"
begin

unbundle bit_operations_syntax

section \<open>Interval overlap (kernel/generic/include/macros.h)\<close>

text \<open>
  \<^verbatim>\<open>static inline int overlaps(uintptr_t s1, size_t sz1, uintptr_t s2, size_t sz2)\<close>
  computes both end addresses in the machine word (\<open>uintptr_t\<close> and \<open>size_t\<close> have the
  width of a pointer, here \<open>'a word\<close>, whose \<open>+\<close> wraps modulo \<open>2 ^ LENGTH('a)\<close>) and
  returns the C truth value of \<open>(s1 < e2) && (s2 < e1)\<close>, that is 1 or 0.
\<close>

definition overlaps :: "'a::len word \<Rightarrow> 'a word \<Rightarrow> 'a word \<Rightarrow> 'a word \<Rightarrow> int" where
  "overlaps s1 sz1 s2 sz2 =
     (let e1 = s1 + sz1;
          e2 = s2 + sz2
      in if (s1 < e2) \<and> (s2 < e1) then 1 else 0)"

section \<open>Error codes\<close>

text \<open>
  The error codes the drivers return. \<open>errno.h\<close> is not part of the sources, so the
  codes are kept symbolic; \<open>EOTHER n\<close> stands for any code that the drivers only pass
  on from a callee.
\<close>

datatype errno = EOK | ENOMEM | EINVAL | EIO | EOTHER nat

section \<open>The msim keyboard: its consumer (kbd/arch/mips32/src/kbd.c)\<close>

text \<open>
  \<open>key_buffer_push\<close> lives in the key buffer, outside this file. A call of it is
  recorded, with the argument it is given, at the end of the list of calls made so far.
  A C \<open>int\<close> is a 32-bit word on mips32 (\<open>sint\<close> reads it as signed).
\<close>

datatype kbd_call = Key_buffer_push "32 word"

definition kbd_arch_process :: "32 word \<Rightarrow> kbd_call list \<Rightarrow> 32 word \<times> kbd_call list" where
  "kbd_arch_process scan_code calls = (1, calls @ [Key_buffer_push scan_code])"

section \<open>The PC platform driver (uspace/drv/rootpc/rootpc.c)\<close>

text \<open>
  The outcomes of the framework calls made by \<open>rootpc_add_fun\<close>: whether
  \<open>ddf_fun_create\<close> and \<open>create_match_id\<close> returned a node (not \<open>NULL\<close>), and the
  code returned by \<open>ddf_fun_bind\<close>. What the driver prints and the node it destroys
  on failure are recorded as events.
\<close>

record rootpc_env =
  fun_create_ok :: bool
  create_match_id_ok :: bool
  fun_bind_rc :: errno

datatype rootpc_event =
    Print_adding_function string
  | Print_error_binding string
  | Print_failed_to_add_function string
  | Print_add_device int
  | Print_failed_to_add_functions
  | Fun_destroy

text \<open>The \<open>failure:\<close> label of \<open>rootpc_add_fun\<close>; \<open>fnode\<close> tells whether the node exists.\<close>

definition rootpc_add_fun_failure :: "bool \<Rightarrow> string \<Rightarrow> rootpc_event list \<Rightarrow> bool \<times> rootpc_event list" where
  "rootpc_add_fun_failure fnode name evs =
     (False, evs @ (if fnode then [Fun_destroy] else []) @ [Print_failed_to_add_function name])"

definition rootpc_add_fun :: "rootpc_env \<Rightarrow> string \<Rightarrow> string \<Rightarrow> bool \<times> rootpc_event list" where
  "rootpc_add_fun env name str_match_id =
     (let evs = [Print_adding_function name] in
      if \<not> fun_create_ok env then rootpc_add_fun_failure False name evs
      else if \<not> create_match_id_ok env then rootpc_add_fun_failure True name evs
      else if fun_bind_rc env \<noteq> EOK
        then rootpc_add_fun_failure True name (evs @ [Print_error_binding name])
      else (True, evs))"

definition rootpc_add_functions :: "rootpc_env \<Rightarrow> bool \<times> rootpc_event list" where
  "rootpc_add_functions env = rootpc_add_fun env ''pci0'' ''intel_pci''"

text \<open>\<open>handle\<close> is \<open>(int)dev->handle\<close>, which the function only prints.\<close>

definition rootpc_add_device :: "rootpc_env \<Rightarrow> int \<Rightarrow> errno \<times> rootpc_event list" where
  "rootpc_add_device env handle =
     (let evs = [Print_add_device handle];
          (ok, evs') = rootpc_add_functions env
      in if \<not> ok then (EOK, evs @ evs' @ [Print_failed_to_add_functions])
         else (EOK, evs @ evs'))"

section \<open>The interrupt command interpreter\<close>

text \<open>
  Modelled from the spec: the command vocabulary, the scratch register file, the register
  access primitive and the interpreter that executes a command list. The sources hold
  only the drivers that build command lists (\<open>irq_cmd_t\<close>, \<open>irq_code_t\<close>, the
  \<open>CMD_...\<close> codes and the kernel routine that runs them are declared and defined
  elsewhere), so every definition of this section follows sections 3, 4.1 and 4.3 of
  the specification. \<open>'w\<close> is the type of a machine word; the functions use it at
  \<open>'a word\<close>.
\<close>

text \<open>Modelled from the spec: \<open>Verdict{Claimed, NotClaimed}\<close> (4.3).\<close>

datatype verdict = Claimed | NotClaimed

text \<open>Modelled from the spec: the access width, \<open>width \<in> {1,2,4,8} bytes\<close> (4.1).\<close>

datatype width = Bytes1 | Bytes2 | Bytes4 | Bytes8

text \<open>Modelled from the spec: the number of bits of an access of the given width.\<close>

fun width_bits :: "width \<Rightarrow> nat" where
  "width_bits Bytes1 = 8"
| "width_bits Bytes2 = 16"
| "width_bits Bytes4 = 32"
| "width_bits Bytes8 = 64"

text \<open>Modelled from the spec: the \<open>value_or_scratch\<close> argument of \<open>WRITE\<close> (3).\<close>

datatype 'w operand = Immediate 'w | Scratch nat

text \<open>
  Modelled from the spec: the tagged variant of commands (3),
  \<open>READ(width, address) -> scratch[i]\<close>, \<open>WRITE(width, address, value_or_scratch)\<close>,
  \<open>AND(scratch[i], mask) -> scratch[j]\<close>, \<open>PREDICATE(scratch[i], expected)\<close>,
  \<open>ACCEPT\<close> and \<open>DECLINE\<close>. An address is the resolved one (addresses are resolved
  before interrupt time). In the drivers' initialisers \<open>CMD_PIO_READ_8\<close> and
  \<open>CMD_MEM_READ_1\<close> are the one-byte \<open>CMD_READ\<close> (\<open>.addr\<close>, \<open>.dstarg\<close>),
  \<open>CMD_PIO_WRITE_8\<close> the one-byte \<open>CMD_WRITE\<close> of the immediate \<open>.value\<close>,
  and \<open>CMD_AND\<close> has \<open>.srcarg\<close>, \<open>.value\<close> (the mask) and \<open>.dstarg\<close>. The
  driver's \<open>CMD_PREDICATE\<close> has \<open>.srcarg\<close> and an operand \<open>.value\<close> that is not
  the expected value of the vocabulary; the section on the HD-Audio driver says how it
  is rendered.
\<close>

datatype 'w irq_cmd =
    CMD_READ width 'w nat
  | CMD_WRITE width 'w "'w operand"
  | CMD_AND nat 'w nat
  | CMD_PREDICATE nat 'w
  | CMD_ACCEPT
  | CMD_DECLINE

text \<open>
  \<open>irq_pio_range_t\<close> and \<open>irq_code_t\<close> as the HD-Audio driver initialises them:
  a range has \<open>.base\<close> and \<open>.size\<close>, a program has \<open>.rangecount\<close>, \<open>.ranges\<close>,
  \<open>.cmdcount\<close> and \<open>.cmds\<close>.
\<close>

record 'w irq_pio_range =
  base :: 'w
  size :: nat

record 'w irq_code =
  rangecount :: nat
  ranges :: "'w irq_pio_range list"
  cmdcount :: nat
  cmds :: "'w irq_cmd list"

text \<open>
  Modelled from the spec: the state of one interpreter invocation. \<open>scratch\<close> is the
  scratch register file and \<open>regs\<close> the contents of the register space (a mock
  register per address). Three logs observe the run: \<open>bus_writes\<close> (address and
  value of every register write), \<open>scratch_trace\<close> (slot and value of every scratch
  store) and \<open>executed\<close> (the index of every command executed, in order).
\<close>

record 'w irq_state =
  scratch :: "nat \<Rightarrow> 'w"
  regs :: "'w \<Rightarrow> 'w"
  bus_writes :: "('w \<times> 'w) list"
  scratch_trace :: "(nat \<times> 'w) list"
  executed :: "nat list"

text \<open>
  Modelled from the spec: the register access primitive (4.1),
  \<open>read(width, addr) -> value\<close>: the value of the given width at the address.
\<close>

definition pio_read :: "width \<Rightarrow> 'a::len word \<Rightarrow> ('a word \<Rightarrow> 'a word) \<Rightarrow> 'a word" where
  "pio_read w a rs = take_bit (width_bits w) (rs a)"

text \<open>
  Modelled from the spec: \<open>write(width, addr, value)\<close> (4.1); the write is logged in
  \<open>bus_writes\<close>.
\<close>

definition pio_write :: "width \<Rightarrow> 'a::len word \<Rightarrow> 'a word \<Rightarrow> 'a word irq_state \<Rightarrow> 'a word irq_state" where
  "pio_write w a v st =
     st\<lparr>regs := (regs st)(a := take_bit (width_bits w) v),
        bus_writes := bus_writes st @ [(a, take_bit (width_bits w) v)]\<rparr>"

text \<open>
  Modelled from the spec: a store into a slot of the scratch register file (3); the
  store is logged in \<open>scratch_trace\<close>.
\<close>

definition scratch_store :: "nat \<Rightarrow> 'a::len word \<Rightarrow> 'a word irq_state \<Rightarrow> 'a word irq_state" where
  "scratch_store d v st =
     st\<lparr>scratch := (scratch st)(d := v), scratch_trace := scratch_trace st @ [(d, v)]\<rparr>"

text \<open>
  Modelled from the spec: the value a \<open>WRITE\<close> writes, ``an immediate or a scratch
  value'' (4.3).
\<close>

fun operand_value :: "'a::len word operand \<Rightarrow> 'a word irq_state \<Rightarrow> 'a word" where
  "operand_value (Immediate v) st = v"
| "operand_value (Scratch s) st = scratch st s"

text \<open>
  Modelled from the spec: one command (4.3). \<open>READ\<close> performs the read and stores into
  scratch; \<open>WRITE\<close> performs the write of an immediate or a scratch value; \<open>AND\<close>
  bitwise-ANDs a scratch value with an immediate mask and stores the result;
  \<open>PREDICATE(scratch, expected)\<close> terminates with \<open>NotClaimed\<close> if scratch differs
  from expected; \<open>ACCEPT\<close> terminates with \<open>Claimed\<close>, \<open>DECLINE\<close> with
  \<open>NotClaimed\<close>. \<open>None\<close> means that execution continues with the next command.
\<close>

fun irq_step :: "'a::len word irq_cmd \<Rightarrow> 'a word irq_state \<Rightarrow> verdict option \<times> 'a word irq_state" where
  "irq_step (CMD_READ w a d) st = (None, scratch_store d (pio_read w a (regs st)) st)"
| "irq_step (CMD_WRITE w a v) st = (None, pio_write w a (operand_value v st) st)"
| "irq_step (CMD_AND s m d) st = (None, scratch_store d (scratch st s AND m) st)"
| "irq_step (CMD_PREDICATE s e) st = (if scratch st s \<noteq> e then Some NotClaimed else None, st)"
| "irq_step CMD_ACCEPT st = (Some Claimed, st)"
| "irq_step CMD_DECLINE st = (Some NotClaimed, st)"

text \<open>
  Modelled from the spec: the interpreter loop (4.3), from command index \<open>i\<close>. It
  terminates on an explicit accept or decline, on a failed predicate, or when the list
  is exhausted. The spec gives no verdict for an exhausted list (a contract violation
  that validation is to exclude), so the result is \<open>None\<close> there; an index that
  \<open>cmdcount\<close> allows but the array does not have ends the run in the same way.
\<close>

function irq_run :: "'a::len word irq_code \<Rightarrow> nat \<Rightarrow> 'a word irq_state \<Rightarrow> verdict option \<times> 'a word irq_state" where
  "irq_run code i st =
     (if i < cmdcount code \<and> i < length (cmds code) then
        (case irq_step (cmds code ! i) (st\<lparr>executed := executed st @ [i]\<rparr>) of
           (Some v, st') \<Rightarrow> (Some v, st')
         | (None, st') \<Rightarrow> irq_run code (i + 1) st')
      else (None, st))"
  by pat_completeness auto
termination
  by (relation "measure (\<lambda>(code, i, st). cmdcount code - i)") auto

declare irq_run.simps [simp del]

text \<open>
  Modelled from the spec: \<open>execute(list) -> Verdict\<close> (4.3), run against register
  contents \<open>rs\<close>. The scratch file is scoped to the invocation and ``zeroed or
  undefined before first write'' (3): \<open>sc\<close> is what it holds on entry.
\<close>

definition execute :: "'a::len word irq_code \<Rightarrow> ('a word \<Rightarrow> 'a word) \<Rightarrow> (nat \<Rightarrow> 'a word) \<Rightarrow> verdict option \<times> 'a word irq_state" where
  "execute code rs sc =
     irq_run code 0 \<lparr>scratch = sc, regs = rs, bus_writes = [], scratch_trace = [], executed = []\<rparr>"

text \<open>
  Modelled from the spec: the invariant of a command list (3), ``every scratch index
  referenced must have been written by an earlier command in the same list''.
  \<open>cmd_reads\<close> are the slots a command reads, \<open>cmd_writes\<close> the slots it stores to,
  and \<open>W\<close> the slots written so far.
\<close>

fun cmd_reads :: "'w irq_cmd \<Rightarrow> nat list" where
  "cmd_reads (CMD_WRITE w a (Scratch s)) = [s]"
| "cmd_reads (CMD_AND s m d) = [s]"
| "cmd_reads (CMD_PREDICATE s e) = [s]"
| "cmd_reads c = []"

text \<open>Modelled from the spec: the scratch slots a command stores into (3).\<close>

fun cmd_writes :: "'w irq_cmd \<Rightarrow> nat list" where
  "cmd_writes (CMD_READ w a d) = [d]"
| "cmd_writes (CMD_AND s m d) = [d]"
| "cmd_writes c = []"

text \<open>
  Modelled from the spec: every slot a command reads is among the slots written by the
  commands before it (3, ``no forward reference'').
\<close>

fun scratch_backward :: "nat list \<Rightarrow> 'w irq_cmd list \<Rightarrow> bool" where
  "scratch_backward W [] = True"
| "scratch_backward W (c # cs) =
     (list_all (\<lambda>s. s \<in> set W) (cmd_reads c) \<and> scratch_backward (cmd_writes c @ W) cs)"

text \<open>
  Modelled from the spec: the terminal commands, and the rule of validation (4.2) that
  ``the list must end in a terminal command (\<open>ACCEPT\<close> or \<open>DECLINE\<close>)''.
\<close>

fun is_terminal :: "'w irq_cmd \<Rightarrow> bool" where
  "is_terminal CMD_ACCEPT = True"
| "is_terminal CMD_DECLINE = True"
| "is_terminal c = False"

text \<open>
  Modelled from the spec: the last command of the list is a terminal command (4.2); an
  empty list has none.
\<close>

definition ends_in_terminal :: "'w irq_cmd list \<Rightarrow> bool" where
  "ends_in_terminal cs = (case rev cs of [] \<Rightarrow> False | c # _ \<Rightarrow> is_terminal c)"

section \<open>The msim keyboard: its interrupt program (kbd/arch/mips32/src/kbd.c)\<close>

text \<open>
  \<^verbatim>\<open>irq_cmd_t msim_cmds[1] = { { CMD_MEM_READ_1, (void *)0xB0000000, 0 } };\<close>
  is a single one-byte read of the keyboard register. The initialiser gives the command
  code, the address and one further field as 0; all fields not given are 0 as well, so
  the destination slot is 0. \<^verbatim>\<open>irq_code_t msim_kbd = { 1, msim_cmds };\<close> has the
  command count 1 and no ranges. Addresses on mips32 are 32-bit words.
\<close>

definition msim_cmds :: "32 word irq_cmd list" where
  "msim_cmds = [CMD_READ Bytes1 0xB0000000 0]"

definition msim_kbd :: "32 word irq_code" where
  "msim_kbd = \<lparr>rangecount = 0, ranges = [], cmdcount = 1, cmds = msim_cmds\<rparr>"

text \<open>
  \<open>kbd_arch_init\<close> calls \<open>ipc_register_irq(2, &msim_kbd)\<close>, ignores what it returns,
  and returns 1. The registration is recorded as the pair of the line and the program.
\<close>

definition kbd_arch_init :: "32 word \<times> (int \<times> 32 word irq_code) list" where
  "kbd_arch_init = (1, [(2, msim_kbd)])"

section \<open>The HD-Audio driver (uspace/drv/audio/hdaudio/hdaudio.c)\<close>

text \<open>
  Modelled from the spec: \<open>BIT_V(uint8_t, rirbsts_intfl)\<close>, the mask of the \<open>AND\<close>
  and the value of the \<open>WRITE\<close>. \<open>bitops.h\<close> and \<open>spec/regs.h\<close> are not among the
  sources; the spec's HD-Audio example gives \<open>0x01\<close> for both.
\<close>

definition rirbsts_intfl_bit :: "'a::len word" where
  "rirbsts_intfl_bit = 0x01"







text \<open>
  The two global arrays of the driver. They are static storage, shared by every call of
  \<open>hda_dev_add\<close>, which patches them in place.
\<close>

record 'w hda_globals =
  hdaudio_irq_pio_ranges :: "'w irq_pio_range list"
  hdaudio_irq_commands :: "'w irq_cmd list"

text \<open>
  The static initialisers (\<open>.base = 0\<close>, \<open>.size = 8192\<close>, and \<open>.addr = NULL\<close>
  twice), the commands in the vocabulary of the interpreter. \<open>READ\<close>, \<open>AND\<close>,
  \<open>WRITE\<close> and \<open>ACCEPT\<close> carry the fields of their initialisers. A \<open>PREDICATE\<close> of
  the vocabulary names the value expected in the slot: slot 3 holds the status masked
  with \<open>rirbsts_intfl_bit\<close>, and the two commands that the driver's predicate guards
  run when it is not 0, that is when it is \<open>rirbsts_intfl_bit\<close>; the spec's HD-Audio
  example has \<open>PREDICATE(s1, 1)\<close> accordingly. That this list does what the
  initialisers do, for every address and all register contents, is lemma
  \<open>irq_run_guarded_hdaudio\<close> below.
\<close>

definition hda_globals_init :: "'a::len word hda_globals" where
  "hda_globals_init =
     \<lparr>hdaudio_irq_pio_ranges = [\<lparr>base = 0, size = 8192\<rparr>],
      hdaudio_irq_commands =
        [CMD_READ Bytes1 0 2,
         CMD_AND 2 rirbsts_intfl_bit 3,
         CMD_PREDICATE 3 rirbsts_intfl_bit,
         CMD_WRITE Bytes1 0 (Immediate rirbsts_intfl_bit),
         CMD_ACCEPT]\<rparr>"

text \<open>
  \<open>hdaudio_irq_code\<close> points to the two arrays, so it is read off the globals; its
  counts are the compile-time quotients \<open>sizeof(array) / sizeof(element)\<close>, 1 and 5.
\<close>

definition hdaudio_irq_code :: "'w hda_globals \<Rightarrow> 'w irq_code" where
  "hdaudio_irq_code g =
     \<lparr>rangecount = 1, ranges = hdaudio_irq_pio_ranges g,
      cmdcount = 5, cmds = hdaudio_irq_commands g\<rparr>"

text \<open>The assignment \<open>cmd.addr = a\<close>; only \<open>READ\<close> and \<open>WRITE\<close> carry an address.\<close>

fun set_addr :: "'w \<Rightarrow> 'w irq_cmd \<Rightarrow> 'w irq_cmd" where
  "set_addr a (CMD_READ w _ d) = CMD_READ w a d"
| "set_addr a (CMD_WRITE w _ v) = CMD_WRITE w a v"
| "set_addr a c = c"

text \<open>
  \<open>hda_regs_t\<close> is declared in \<open>spec/regs.h\<close>, which is not among the sources: its
  size and the offset of its member \<open>rirbsts\<close> are parameters.
\<close>

record 'w hda_layout =
  sizeof_hda_regs :: nat
  offsetof_rirbsts :: 'w

text \<open>
  What the framework returns to \<open>hda_dev_add\<close>: whether \<open>ddf_dev_data_alloc\<close> and
  \<open>ddf_dev_parent_sess_create\<close> returned an object (not \<open>NULL\<close>), the code returned
  by \<open>hw_res_get_list_parsed\<close> and the memory ranges (\<open>RNGABS\<close> taken as a
  \<open>uintptr_t\<close>, and \<open>RNGSZ\<close>) and interrupt numbers of the parsed list, the codes
  returned by \<open>pio_enable\<close>, \<open>register_interrupt_handler\<close> and \<open>ddf_fun_bind\<close>, and
  whether \<open>hda_ctl_init\<close> and \<open>ddf_fun_create\<close> returned an object.
\<close>

record 'w hda_env =
  dev_data_alloc_ok :: bool
  parent_sess_ok :: bool
  hw_res_rc :: errno
  mem_ranges :: "('w \<times> nat) list"
  irqs :: "int list"
  pio_enable_rc :: errno
  register_rc :: errno
  ctl_init_ok :: bool
  hda_fun_create_ok :: bool
  hda_fun_bind_rc :: errno

text \<open>
  What a call of \<open>hda_dev_add\<close> leaves: its return code, the globals, and, when
  \<open>register_interrupt_handler\<close> was called, the interrupt number and the program
  \<open>hdaudio_irq_code\<close> as it stood at that call.
\<close>

record 'w hda_result =
  hda_rc :: errno
  hda_globals_after :: "'w hda_globals"
  hda_registered :: "(int \<times> 'w irq_code) option"

text \<open>
  \<open>hda_dev_add\<close>, statement by statement. Every \<open>goto error\<close> returns the current
  \<open>rc\<close> (the cleanup under \<open>error:\<close> touches only the controller state). On an
  unexpected interrupt count \<open>rc\<close> is not assigned and still holds what \<open>pio_enable\<close>
  returned.
\<close>

definition hda_dev_add :: "'a::len word hda_layout \<Rightarrow> 'a word hda_env \<Rightarrow> 'a word hda_globals \<Rightarrow> 'a word hda_result" where
  "hda_dev_add L env g =
     (if \<not> dev_data_alloc_ok env then
        \<lparr>hda_rc = ENOMEM, hda_globals_after = g, hda_registered = None\<rparr>
      else if \<not> parent_sess_ok env then
        \<lparr>hda_rc = ENOMEM, hda_globals_after = g, hda_registered = None\<rparr>
      else if hw_res_rc env \<noteq> EOK then
        \<lparr>hda_rc = hw_res_rc env, hda_globals_after = g, hda_registered = None\<rparr>
      else if length (mem_ranges env) \<noteq> 1 then
        \<lparr>hda_rc = EINVAL, hda_globals_after = g, hda_registered = None\<rparr>
      else
        let rwbase = fst (mem_ranges env ! 0);
            rwsize = snd (mem_ranges env ! 0)
        in
        if rwsize < sizeof_hda_regs L then
          \<lparr>hda_rc = EINVAL, hda_globals_after = g, hda_registered = None\<rparr>
        else if pio_enable_rc env \<noteq> EOK then
          \<lparr>hda_rc = pio_enable_rc env, hda_globals_after = g, hda_registered = None\<rparr>
        else if length (irqs env) \<noteq> 1 then
          \<lparr>hda_rc = pio_enable_rc env, hda_globals_after = g, hda_registered = None\<rparr>
        else
          let rirbsts = rwbase + offsetof_rirbsts L;
              g1 = g\<lparr>hdaudio_irq_pio_ranges :=
                      (hdaudio_irq_pio_ranges g)
                        [0 := (hdaudio_irq_pio_ranges g ! 0)\<lparr>base := rwbase\<rparr>]\<rparr>;
              g2 = g1\<lparr>hdaudio_irq_commands :=
                      (hdaudio_irq_commands g1)
                        [0 := set_addr rirbsts (hdaudio_irq_commands g1 ! 0)]\<rparr>;
              g3 = g2\<lparr>hdaudio_irq_commands :=
                      (hdaudio_irq_commands g2)
                        [3 := set_addr rirbsts (hdaudio_irq_commands g2 ! 3)]\<rparr>;
              reg = Some (irqs env ! 0, hdaudio_irq_code g3)
          in
          if register_rc env \<noteq> EOK then
            \<lparr>hda_rc = register_rc env, hda_globals_after = g3, hda_registered = reg\<rparr>
          else if \<not> ctl_init_ok env then
            \<lparr>hda_rc = EIO, hda_globals_after = g3, hda_registered = reg\<rparr>
          else if \<not> hda_fun_create_ok env then
            \<lparr>hda_rc = ENOMEM, hda_globals_after = g3, hda_registered = reg\<rparr>
          else if hda_fun_bind_rc env \<noteq> EOK then
            \<lparr>hda_rc = hda_fun_bind_rc env, hda_globals_after = g3, hda_registered = reg\<rparr>
          else
            \<lparr>hda_rc = EOK, hda_globals_after = g3, hda_registered = reg\<rparr>)"

section \<open>Reachable driver state and the state relation of two runs\<close>

text \<open>
  The globals of the HD-Audio driver start from their static initialisers, and the only
  function of the driver that assigns to them is \<open>hda_dev_add\<close>, which the framework
  calls once for every device it hands to the driver.
\<close>

inductive hda_reachable :: "'a::len word hda_layout \<Rightarrow> 'a word hda_globals \<Rightarrow> bool" for L where
  initial: "hda_reachable L hda_globals_init"
| added: "hda_reachable L g \<Longrightarrow> hda_reachable L (hda_globals_after (hda_dev_add L env g))"

text \<open>
  Two interpreter states agree on the slots \<open>W\<close> when they hold the same values in
  these scratch slots and the same registers and logs; the other slots may differ.
\<close>

definition agree :: "nat list \<Rightarrow> 'a::len word irq_state \<Rightarrow> 'a word irq_state \<Rightarrow> bool" where
  "agree W st1 st2 \<longleftrightarrow>
     (\<forall>s \<in> set W. scratch st1 s = scratch st2 s) \<and> regs st1 = regs st2 \<and>
     bus_writes st1 = bus_writes st2 \<and> scratch_trace st1 = scratch_trace st2 \<and>
     executed st1 = executed st2"

section \<open>Properties\<close>

subsection \<open>Unfolding the interpreter loop\<close>

lemma irq_run_in:
  "i < cmdcount code \<Longrightarrow> i < length (cmds code) \<Longrightarrow>
   irq_run code i st =
     (case irq_step (cmds code ! i) (st\<lparr>executed := executed st @ [i]\<rparr>) of
        (Some v, st') \<Rightarrow> (Some v, st')
      | (None, st') \<Rightarrow> irq_run code (i + 1) st')"
  by (subst irq_run.simps) simp

lemma irq_run_out:
  "\<not> (i < cmdcount code \<and> i < length (cmds code)) \<Longrightarrow> irq_run code i st = (None, st)"
  by (subst irq_run.simps) auto

lemma irq_step_executed: "executed (snd (irq_step c st)) = executed st"
  by (cases c) (simp_all add: scratch_store_def pio_write_def)

lemma irq_run_executed:
  "\<exists>k. i \<le> k \<and> k \<le> max i (cmdcount code) \<and>
       executed (snd (irq_run code i st)) = executed st @ [i..<k]"
proof (induction code i st rule: irq_run.induct)
  case (1 code i st)
  show ?case
  proof (cases "i < cmdcount code \<and> i < length (cmds code)")
    case False
    then have "irq_run code i st = (None, st)" by (rule irq_run_out)
    then have "i \<le> i \<and> i \<le> max i (cmdcount code) \<and>
       executed (snd (irq_run code i st)) = executed st @ [i..<i]" by simp
    then show ?thesis by blast
  next
    case True
    let ?st = "st\<lparr>executed := executed st @ [i]\<rparr>"
    obtain v st' where step: "irq_step (cmds code ! i) ?st = (v, st')"
      by (cases "irq_step (cmds code ! i) ?st")
    have ex': "executed st' = executed st @ [i]"
      using irq_step_executed [of "cmds code ! i" ?st] step by simp
    show ?thesis
    proof (cases v)
      case (Some x)
      then have "irq_run code i st = (Some x, st')"
        using True step by (simp add: irq_run_in)
      then have "i \<le> Suc i \<and> Suc i \<le> max i (cmdcount code) \<and>
         executed (snd (irq_run code i st)) = executed st @ [i..<Suc i]"
        using True ex' by simp
      then show ?thesis by blast
    next
      case None
      then have run: "irq_run code i st = irq_run code (i + 1) st'"
        using True step by (simp add: irq_run_in)
      from "1.IH" [OF True step [symmetric] None]
      obtain k where k: "i + 1 \<le> k" "k \<le> max (i + 1) (cmdcount code)"
        "executed (snd (irq_run code (i + 1) st')) = executed st' @ [i + 1..<k]"
        by blast
      have "[i..<k] = i # [i + 1..<k]" using k(1) by (simp add: upt_conv_Cons)
      then have "i \<le> k \<and> k \<le> max i (cmdcount code) \<and>
         executed (snd (irq_run code i st)) = executed st @ [i..<k]"
        using k True run ex' by simp
      then show ?thesis by blast
    qed
  qed
qed

subsection \<open>Runs that differ only in unwritten scratch slots\<close>

lemma irq_step_agree:
  assumes "agree W st1 st2" and "list_all (\<lambda>s. s \<in> set W) (cmd_reads c)"
  shows "fst (irq_step c st1) = fst (irq_step c st2) \<and>
         agree (cmd_writes c @ W) (snd (irq_step c st1)) (snd (irq_step c st2))"
proof (cases c)
  case (CMD_WRITE w a v)
  then show ?thesis using assms
    by (cases v) (simp_all add: agree_def pio_write_def)
qed (use assms in \<open>simp_all add: agree_def scratch_store_def\<close>)

lemma agree_executed:
  "agree W st1 st2 \<Longrightarrow> agree W (st1\<lparr>executed := executed st1 @ [i]\<rparr>) (st2\<lparr>executed := executed st2 @ [i]\<rparr>)"
  by (simp add: agree_def)

lemma irq_run_agree:
  "agree W st1 st2 \<Longrightarrow> scratch_backward W (drop i (cmds code)) \<Longrightarrow>
   fst (irq_run code i st1) = fst (irq_run code i st2) \<and>
   agree W (snd (irq_run code i st1)) (snd (irq_run code i st2))"
proof (induction code i st1 arbitrary: W st2 rule: irq_run.induct)
  case (1 code i st1)
  show ?case
  proof (cases "i < cmdcount code \<and> i < length (cmds code)")
    case False
    then show ?thesis using "1.prems"(1) by (simp add: irq_run_out)
  next
    case True
    let ?c = "cmds code ! i"
    let ?s1 = "st1\<lparr>executed := executed st1 @ [i]\<rparr>"
    let ?s2 = "st2\<lparr>executed := executed st2 @ [i]\<rparr>"
    have dr: "drop i (cmds code) = ?c # drop (Suc i) (cmds code)"
      using True by (simp add: Cons_nth_drop_Suc)
    have rd: "list_all (\<lambda>s. s \<in> set W) (cmd_reads ?c)"
      and bw: "scratch_backward (cmd_writes ?c @ W) (drop (i + 1) (cmds code))"
      using "1.prems"(2) dr by simp_all
    obtain v1 t1 where s1: "irq_step ?c ?s1 = (v1, t1)" by (cases "irq_step ?c ?s1")
    obtain v2 t2 where s2: "irq_step ?c ?s2 = (v2, t2)" by (cases "irq_step ?c ?s2")
    have st: "v1 = v2" "agree (cmd_writes ?c @ W) t1 t2"
      using irq_step_agree [OF agree_executed [OF "1.prems"(1), of i] rd] s1 s2 by simp_all
    have sub: "agree W t1 t2" using st(2) by (simp add: agree_def)
    show ?thesis
    proof (cases v1)
      case (Some x)
      then show ?thesis using True s1 s2 st(1) sub by (simp add: irq_run_in)
    next
      case None
      have r1: "irq_run code i st1 = irq_run code (i + 1) t1"
        using True s1 None by (simp add: irq_run_in)
      have r2: "irq_run code i st2 = irq_run code (i + 1) t2"
        using True s2 None st(1) by (simp add: irq_run_in)
      have "fst (irq_run code (i + 1) t1) = fst (irq_run code (i + 1) t2) \<and>
            agree (cmd_writes ?c @ W) (snd (irq_run code (i + 1) t1)) (snd (irq_run code (i + 1) t2))"
        using "1.IH" [OF True s1 [symmetric] None st(2) bw] .
      then show ?thesis using r1 r2 by (simp add: agree_def)
    qed
  qed
qed

subsection \<open>The HD-Audio program after \<open>hda_dev_add\<close>\<close>

lemma hda_dev_add_shape:
  assumes "hdaudio_irq_pio_ranges g = [\<lparr>base = b, size = 8192\<rparr>]"
    and "hdaudio_irq_commands g =
          [CMD_READ Bytes1 r0 2, CMD_AND 2 0x01 3, CMD_PREDICATE 3 0x01,
           CMD_WRITE Bytes1 r3 (Immediate 0x01), CMD_ACCEPT]"
  shows "(hda_registered (hda_dev_add L env g) = None \<and> hda_globals_after (hda_dev_add L env g) = g) \<or>
         (hda_registered (hda_dev_add L env g) =
            Some (irqs env ! 0, hdaudio_irq_code (hda_globals_after (hda_dev_add L env g))) \<and>
          hdaudio_irq_pio_ranges (hda_globals_after (hda_dev_add L env g)) =
            [\<lparr>base = fst (mem_ranges env ! 0), size = 8192\<rparr>] \<and>
          hdaudio_irq_commands (hda_globals_after (hda_dev_add L env g)) =
            [CMD_READ Bytes1 (fst (mem_ranges env ! 0) + offsetof_rirbsts L) 2, CMD_AND 2 0x01 3,
             CMD_PREDICATE 3 0x01,
             CMD_WRITE Bytes1 (fst (mem_ranges env ! 0) + offsetof_rirbsts L) (Immediate 0x01),
             CMD_ACCEPT])"
  using assms by (simp add: hda_dev_add_def Let_def)

lemma hda_reachable_shape:
  "hda_reachable L g \<Longrightarrow>
   \<exists>b r0 r3. hdaudio_irq_pio_ranges g = [\<lparr>base = b, size = 8192\<rparr>] \<and>
     hdaudio_irq_commands g =
       [CMD_READ Bytes1 r0 2, CMD_AND 2 0x01 3, CMD_PREDICATE 3 0x01,
        CMD_WRITE Bytes1 r3 (Immediate 0x01), CMD_ACCEPT]"
proof (induction rule: hda_reachable.induct)
  case initial
  show ?case by (simp add: hda_globals_init_def rirbsts_intfl_bit_def)
next
  case (added g env)
  then obtain b r0 r3 where sh: "hdaudio_irq_pio_ranges g = [\<lparr>base = b, size = 8192\<rparr>]"
     "hdaudio_irq_commands g =
       [CMD_READ Bytes1 r0 2, CMD_AND 2 0x01 3, CMD_PREDICATE 3 0x01,
        CMD_WRITE Bytes1 r3 (Immediate 0x01), CMD_ACCEPT]" by blast
  from hda_dev_add_shape [OF sh, of L env] show ?case
    using sh by auto
qed

lemma hda_registered_program:
  assumes "hda_reachable L g" and "hda_registered (hda_dev_add L env g) = Some (irq, code)"
  shows "code =
     \<lparr>rangecount = 1, ranges = [\<lparr>base = fst (mem_ranges env ! 0), size = 8192\<rparr>],
      cmdcount = 5,
      cmds = [CMD_READ Bytes1 (fst (mem_ranges env ! 0) + offsetof_rirbsts L) 2, CMD_AND 2 0x01 3,
              CMD_PREDICATE 3 0x01,
              CMD_WRITE Bytes1 (fst (mem_ranges env ! 0) + offsetof_rirbsts L) (Immediate 0x01),
              CMD_ACCEPT]\<rparr>"
proof -
  from hda_reachable_shape [OF assms(1)]
  obtain b r0 r3 where sh: "hdaudio_irq_pio_ranges g = [\<lparr>base = b, size = 8192\<rparr>]"
     "hdaudio_irq_commands g =
       [CMD_READ Bytes1 r0 2, CMD_AND 2 0x01 3, CMD_PREDICATE 3 0x01,
        CMD_WRITE Bytes1 r3 (Immediate 0x01), CMD_ACCEPT]" by blast
  from hda_dev_add_shape [OF sh, of L env] assms(2)
  show ?thesis by (auto simp: hdaudio_irq_code_def)
qed

lemma short_circuit_run:
  assumes "cmdcount code = 5"
    and "cmds code = [CMD_READ w a d, CMD_AND d m d', CMD_PREDICATE d' X, CMD_WRITE w' a' v, CMD_ACCEPT]"
    and "pio_read w a rs AND m \<noteq> X"
  shows "execute code rs sc =
           (Some NotClaimed,
            \<lparr>scratch = sc(d := pio_read w a rs, d' := pio_read w a rs AND m), regs = rs, bus_writes = [],
             scratch_trace = [(d, pio_read w a rs), (d', pio_read w a rs AND m)],
             executed = [0, 1, 2]\<rparr>)"
  using assms by (simp add: execute_def irq_run_in scratch_store_def)

lemma pass_run:
  assumes "cmdcount code = 5"
    and "cmds code = [CMD_READ w a d, CMD_AND d m d', CMD_PREDICATE d' X, CMD_WRITE w' a' (Immediate v), CMD_ACCEPT]"
    and "pio_read w a rs AND m = X"
  shows "fst (execute code rs sc) = Some Claimed \<and>
         bus_writes (snd (execute code rs sc)) = [(a', take_bit (width_bits w') v)] \<and>
         regs (snd (execute code rs sc)) = rs(a' := take_bit (width_bits w') v)"
  using assms by (simp add: execute_def irq_run_in scratch_store_def pio_write_def)

subsection \<open>The driver's initialisers and the registered list\<close>






subsection \<open>Predicate short-circuit\<close>

text \<open>
  C1. A list of the shape \<open>[READ, AND(mask), PREDICATE(expected = X), WRITE, ACCEPT]\<close>,
  in which the \<open>AND\<close> masks the value read and the \<open>PREDICATE\<close> tests the masked
  value, run against register contents where \<open>(value & mask) \<noteq> X\<close>, yields
  \<open>NotClaimed\<close> and performs no register write: the registers are as before, and
  only the commands 0, 1 and 2 are executed. The HD-Audio list has this shape.
\<close>

theorem predicate_short_circuit:
  assumes "cmdcount code = 5"
    and "cmds code =
           [CMD_READ w a d, CMD_AND d m d', CMD_PREDICATE d' X, CMD_WRITE w' a' v, CMD_ACCEPT]"
    and "pio_read w a rs AND m \<noteq> X"
  shows "fst (execute code rs sc) = Some NotClaimed \<and>
         bus_writes (snd (execute code rs sc)) = [] \<and>
         regs (snd (execute code rs sc)) = rs \<and>
         executed (snd (execute code rs sc)) = [0, 1, 2]"
  using short_circuit_run [OF assms, of sc] by simp

text \<open>
  The HD-Audio program for a device at \<open>0xFEBF0000\<close> on a 32-bit machine, with the
  status register (at offset \<open>0x5D\<close>) holding \<open>0x00\<close>.
\<close>

theorem predicate_short_circuit_witness:
  "pio_read Bytes1 (0xFEBF005D :: 32 word) (\<lambda>_. 0) AND 0x01 \<noteq> 0x01 \<and>
   fst (execute
     \<lparr>rangecount = 1, ranges = [\<lparr>base = 0xFEBF0000, size = 8192\<rparr>], cmdcount = 5,
      cmds = [CMD_READ Bytes1 0xFEBF005D 2, CMD_AND 2 0x01 3, CMD_PREDICATE 3 0x01,
              CMD_WRITE Bytes1 0xFEBF005D (Immediate 0x01), CMD_ACCEPT]\<rparr>
     (\<lambda>_. 0) (\<lambda>_. 0 :: 32 word)) = Some NotClaimed \<and>
   bus_writes (snd (execute
     \<lparr>rangecount = 1, ranges = [\<lparr>base = 0xFEBF0000, size = 8192\<rparr>], cmdcount = 5,
      cmds = [CMD_READ Bytes1 0xFEBF005D 2, CMD_AND 2 0x01 3, CMD_PREDICATE 3 0x01,
              CMD_WRITE Bytes1 0xFEBF005D (Immediate 0x01), CMD_ACCEPT]\<rparr>
     (\<lambda>_. 0) (\<lambda>_. 0 :: 32 word))) = []"
proof -
  let ?C = "\<lparr>rangecount = 1, ranges = [\<lparr>base = 0xFEBF0000 :: 32 word, size = 8192\<rparr>], cmdcount = 5,
      cmds = [CMD_READ Bytes1 0xFEBF005D 2, CMD_AND 2 0x01 3, CMD_PREDICATE 3 0x01,
              CMD_WRITE Bytes1 0xFEBF005D (Immediate 0x01), CMD_ACCEPT]\<rparr>"
  let ?rs = "(\<lambda>_. 0) :: 32 word \<Rightarrow> 32 word"
  have p: "pio_read Bytes1 (0xFEBF005D :: 32 word) ?rs AND 0x01 \<noteq> 0x01"
    by (simp add: pio_read_def)
  have n: "cmdcount ?C = 5" by simp
  have c: "cmds ?C = [CMD_READ Bytes1 0xFEBF005D 2, CMD_AND 2 0x01 3, CMD_PREDICATE 3 0x01,
              CMD_WRITE Bytes1 0xFEBF005D (Immediate 0x01), CMD_ACCEPT]" by simp
  from predicate_short_circuit [OF n c p, of "\<lambda>_. 0"] p
  show ?thesis by blast
qed

subsection \<open>The HD-Audio interrupt program\<close>



subsection \<open>Terminal commands of the registered programs\<close>

lemma hdaudio_shape_verdict:
  fixes code :: "'a::len word irq_code"
  assumes "cmdcount code = 5"
    and "cmds code = [CMD_READ Bytes1 r 2, CMD_AND 2 0x01 3, CMD_PREDICATE 3 0x01,
                      CMD_WRITE Bytes1 r (Immediate 0x01), CMD_ACCEPT]"
  shows "fst (execute code rs sc) \<noteq> None"
proof (cases "pio_read Bytes1 r rs AND 0x01 = 0x01")
  case True
  from pass_run [OF assms True, of sc] show ?thesis by simp
next
  case False
  from short_circuit_run [OF assms False, of sc] show ?thesis by simp
qed

lemma msim_kbd_exhausted:
  "execute msim_kbd rs sc =
     (None, \<lparr>scratch = sc(0 := pio_read Bytes1 0xB0000000 rs), regs = rs, bus_writes = [],
             scratch_trace = [(0, pio_read Bytes1 0xB0000000 rs)], executed = [0]\<rparr>)"
  by (simp add: execute_def msim_kbd_def msim_cmds_def irq_run_in irq_run_out scratch_store_def)

text \<open>
  C3, as the code has it. The HD-Audio program that \<open>hda_dev_add\<close> registers ends in
  the terminal command \<open>ACCEPT\<close>, and every execution of it ends with a verdict. The
  msim keyboard program that \<open>kbd_arch_init\<close> registers on line 2 is the single
  command \<open>READ\<close>: it does not end in a terminal command, and every execution of it
  runs off the end of the list without a verdict.
\<close>

theorem registered_programs_terminal:
  "(hda_reachable L g \<and> hda_registered (hda_dev_add L env g) = Some (irq, code) \<longrightarrow>
      ends_in_terminal (cmds code) \<and> (\<forall>rs sc. fst (execute code rs sc) \<noteq> None)) \<and>
   snd kbd_arch_init = [(2, msim_kbd)] \<and>
   cmds msim_kbd = [CMD_READ Bytes1 0xB0000000 0] \<and>
   \<not> ends_in_terminal (cmds msim_kbd) \<and>
   (\<forall>rs sc. fst (execute msim_kbd rs sc) = None)"
proof -
  have "ends_in_terminal (cmds code) \<and> (\<forall>rs sc. fst (execute code rs sc) \<noteq> None)"
    if "hda_reachable L g" and "hda_registered (hda_dev_add L env g) = Some (irq, code)"
  proof -
    note prog = hda_registered_program [OF that]
    have "ends_in_terminal (cmds code)" by (simp add: prog ends_in_terminal_def)
    moreover have "fst (execute code rs sc) \<noteq> None" for rs sc
      by (rule hdaudio_shape_verdict [of code "fst (mem_ranges env ! 0) + offsetof_rirbsts L"])
         (simp_all add: prog)
    ultimately show ?thesis by blast
  qed
  moreover have "snd kbd_arch_init = [(2, msim_kbd)]" by (simp add: kbd_arch_init_def)
  moreover have "cmds msim_kbd = [CMD_READ Bytes1 0xB0000000 0]"
    by (simp add: msim_kbd_def msim_cmds_def)
  moreover have "\<not> ends_in_terminal (cmds msim_kbd)"
    by (simp add: msim_kbd_def msim_cmds_def ends_in_terminal_def)
  moreover have "\<forall>rs sc. fst (execute msim_kbd rs sc) = None"
    by (simp add: msim_kbd_exhausted)
  ultimately show ?thesis by blast
qed

theorem registered_programs_terminal_witness:
  "hda_reachable \<lparr>sizeof_hda_regs = 8192, offsetof_rirbsts = 0x5D :: 32 word\<rparr> hda_globals_init \<and>
   hda_registered (hda_dev_add \<lparr>sizeof_hda_regs = 8192, offsetof_rirbsts = 0x5D :: 32 word\<rparr>
       \<lparr>dev_data_alloc_ok = True, parent_sess_ok = True, hw_res_rc = EOK,
        mem_ranges = [(0xFEBF0000, 16384)], irqs = [11], pio_enable_rc = EOK,
        register_rc = EOK, ctl_init_ok = True, hda_fun_create_ok = True, hda_fun_bind_rc = EOK\<rparr>
       hda_globals_init) =
     Some (11,
       \<lparr>rangecount = 1, ranges = [\<lparr>base = 0xFEBF0000, size = 8192\<rparr>], cmdcount = 5,
        cmds = [CMD_READ Bytes1 0xFEBF005D 2, CMD_AND 2 0x01 3, CMD_PREDICATE 3 0x01,
                CMD_WRITE Bytes1 0xFEBF005D (Immediate 0x01), CMD_ACCEPT]\<rparr>) \<and>
   ends_in_terminal
     [CMD_READ Bytes1 (0xFEBF005D :: 32 word) 2, CMD_AND 2 0x01 3, CMD_PREDICATE 3 0x01,
      CMD_WRITE Bytes1 0xFEBF005D (Immediate 0x01), CMD_ACCEPT] \<and>
   fst (execute
       \<lparr>rangecount = 1, ranges = [\<lparr>base = 0xFEBF0000, size = 8192\<rparr>], cmdcount = 5,
        cmds = [CMD_READ Bytes1 0xFEBF005D 2, CMD_AND 2 0x01 3, CMD_PREDICATE 3 0x01,
                CMD_WRITE Bytes1 0xFEBF005D (Immediate 0x01), CMD_ACCEPT]\<rparr>
       (\<lambda>_. 0) (\<lambda>_. 0 :: 32 word)) \<noteq> None"
proof -
  let ?L = "\<lparr>sizeof_hda_regs = 8192, offsetof_rirbsts = 0x5D :: 32 word\<rparr>"
  let ?E = "\<lparr>dev_data_alloc_ok = True, parent_sess_ok = True, hw_res_rc = EOK,
        mem_ranges = [(0xFEBF0000 :: 32 word, 16384)], irqs = [11], pio_enable_rc = EOK,
        register_rc = EOK, ctl_init_ok = True, hda_fun_create_ok = True, hda_fun_bind_rc = EOK\<rparr>"
  let ?C = "\<lparr>rangecount = 1, ranges = [\<lparr>base = 0xFEBF0000 :: 32 word, size = 8192\<rparr>], cmdcount = 5,
        cmds = [CMD_READ Bytes1 0xFEBF005D 2, CMD_AND 2 0x01 3, CMD_PREDICATE 3 0x01,
                CMD_WRITE Bytes1 0xFEBF005D (Immediate 0x01), CMD_ACCEPT]\<rparr>"
  have r: "hda_reachable ?L hda_globals_init" by (rule hda_reachable.initial)
  have s: "hda_registered (hda_dev_add ?L ?E hda_globals_init) = Some (11, ?C)"
    by (simp add: hda_dev_add_def hdaudio_irq_code_def hda_globals_init_def
        rirbsts_intfl_bit_def Let_def)
  note t = registered_programs_terminal [of ?L hda_globals_init ?E 11 ?C,
      THEN conjunct1, rule_format, OF conjI [OF r s]]
  show ?thesis using r s t by simp
qed

theorem registered_programs_terminal_counterexample:
  "snd kbd_arch_init = [(2, msim_kbd)] \<and>
   cmds msim_kbd = [CMD_READ Bytes1 0xB0000000 0] \<and>
   \<not> ends_in_terminal (cmds msim_kbd) \<and>
   fst (execute msim_kbd (\<lambda>_. 0) (\<lambda>_. 0)) = None"
  by (simp add: msim_kbd_exhausted kbd_arch_init_def ends_in_terminal_def)
     (simp add: msim_kbd_def msim_cmds_def)

subsection \<open>Determinism\<close>

text \<open>
  C4. For every command list and every assignment of register contents, two executions
  of the list against the same register contents yield the same verdict and the same
  scratch trace, and also the same register writes and the same sequence of executed
  commands. This holds whenever both executions start from the same scratch file (a
  zeroed one, say); and for a list in which every scratch slot that a command reads was
  written by an earlier command (the invariant of a command list) it holds whatever the
  scratch file holds when either execution starts.
\<close>

theorem interpreter_deterministic:
  assumes "sc1 = sc2 \<or> scratch_backward [] (cmds code)"
  shows "fst (execute code rs sc1) = fst (execute code rs sc2) \<and>
         scratch_trace (snd (execute code rs sc1)) = scratch_trace (snd (execute code rs sc2)) \<and>
         bus_writes (snd (execute code rs sc1)) = bus_writes (snd (execute code rs sc2)) \<and>
         regs (snd (execute code rs sc1)) = regs (snd (execute code rs sc2)) \<and>
         executed (snd (execute code rs sc1)) = executed (snd (execute code rs sc2))"
proof (cases "sc1 = sc2")
  case True
  then show ?thesis by simp
next
  case False
  with assms have bw: "scratch_backward [] (cmds code)" by simp
  let ?i1 = "\<lparr>scratch = sc1, regs = rs, bus_writes = [], scratch_trace = [], executed = []\<rparr>"
  let ?i2 = "\<lparr>scratch = sc2, regs = rs, bus_writes = [], scratch_trace = [], executed = []\<rparr>"
  have "agree [] ?i1 ?i2" by (simp add: agree_def)
  from irq_run_agree [OF this, of 0 code] bw
  show ?thesis by (simp add: execute_def agree_def)
qed

text \<open>
  The HD-Audio program, with the status register holding \<open>0x01\<close>, run from a zeroed
  scratch file and from one that holds \<open>0xFF\<close> in every slot.
\<close>

theorem interpreter_deterministic_witness:
  "scratch_backward []
     [CMD_READ Bytes1 (0xFEBF005D :: 32 word) 2, CMD_AND 2 0x01 3, CMD_PREDICATE 3 0x01,
      CMD_WRITE Bytes1 0xFEBF005D (Immediate 0x01), CMD_ACCEPT] \<and>
   fst (execute
       \<lparr>rangecount = 1, ranges = [\<lparr>base = 0xFEBF0000, size = 8192\<rparr>], cmdcount = 5,
        cmds = [CMD_READ Bytes1 0xFEBF005D 2, CMD_AND 2 0x01 3, CMD_PREDICATE 3 0x01,
                CMD_WRITE Bytes1 0xFEBF005D (Immediate 0x01), CMD_ACCEPT]\<rparr>
       ((\<lambda>_. 0)(0xFEBF005D := 0x01)) (\<lambda>_. 0 :: 32 word)) =
   fst (execute
       \<lparr>rangecount = 1, ranges = [\<lparr>base = 0xFEBF0000, size = 8192\<rparr>], cmdcount = 5,
        cmds = [CMD_READ Bytes1 0xFEBF005D 2, CMD_AND 2 0x01 3, CMD_PREDICATE 3 0x01,
                CMD_WRITE Bytes1 0xFEBF005D (Immediate 0x01), CMD_ACCEPT]\<rparr>
       ((\<lambda>_. 0)(0xFEBF005D := 0x01)) (\<lambda>_. 0xFF :: 32 word)) \<and>
   scratch_trace (snd (execute
       \<lparr>rangecount = 1, ranges = [\<lparr>base = 0xFEBF0000, size = 8192\<rparr>], cmdcount = 5,
        cmds = [CMD_READ Bytes1 0xFEBF005D 2, CMD_AND 2 0x01 3, CMD_PREDICATE 3 0x01,
                CMD_WRITE Bytes1 0xFEBF005D (Immediate 0x01), CMD_ACCEPT]\<rparr>
       ((\<lambda>_. 0)(0xFEBF005D := 0x01)) (\<lambda>_. 0 :: 32 word))) =
   scratch_trace (snd (execute
       \<lparr>rangecount = 1, ranges = [\<lparr>base = 0xFEBF0000, size = 8192\<rparr>], cmdcount = 5,
        cmds = [CMD_READ Bytes1 0xFEBF005D 2, CMD_AND 2 0x01 3, CMD_PREDICATE 3 0x01,
                CMD_WRITE Bytes1 0xFEBF005D (Immediate 0x01), CMD_ACCEPT]\<rparr>
       ((\<lambda>_. 0)(0xFEBF005D := 0x01)) (\<lambda>_. 0xFF :: 32 word)))"
proof -
  let ?C = "\<lparr>rangecount = 1, ranges = [\<lparr>base = 0xFEBF0000 :: 32 word, size = 8192\<rparr>], cmdcount = 5,
        cmds = [CMD_READ Bytes1 0xFEBF005D 2, CMD_AND 2 0x01 3, CMD_PREDICATE 3 0x01,
                CMD_WRITE Bytes1 0xFEBF005D (Immediate 0x01), CMD_ACCEPT]\<rparr>"
  have b: "scratch_backward [] (cmds ?C)" by simp
  note t = interpreter_deterministic [OF disjI2 [OF b],
      where ?sc1.0 = "\<lambda>_. 0" and ?sc2.0 = "\<lambda>_. 0xFF" and rs = "(\<lambda>_. 0)(0xFEBF005D := 0x01)"]
  show ?thesis using b t by simp
qed

subsection \<open>Array order and the bound on the number of commands\<close>

text \<open>
  C5. For every command list, the commands executed are those at the indices
  \<open>0, 1, ..., k - 1\<close> for some \<open>k \<le> cmdcount\<close>, in this order: execution goes
  through the array once, never back, and ends after at most \<open>cmdcount\<close> commands.
  (The interpreter is a total function: every execution ends.)
\<close>

theorem execution_in_array_order:
  "(\<exists>k. k \<le> cmdcount code \<and> executed (snd (execute code rs sc)) = [0..<k]) \<and>
   length (executed (snd (execute code rs sc))) \<le> cmdcount code"
proof -
  from irq_run_executed [of 0 code
      "\<lparr>scratch = sc, regs = rs, bus_writes = [], scratch_trace = [], executed = []\<rparr>"]
  obtain k where "k \<le> cmdcount code" "executed (snd (execute code rs sc)) = [0..<k]"
    by (auto simp: execute_def)
  then show ?thesis by auto
qed

theorem execution_in_array_order_witness:
  "(\<exists>k. k \<le> cmdcount msim_kbd \<and> executed (snd (execute msim_kbd (\<lambda>_. 0) (\<lambda>_. 0))) = [0..<k]) \<and>
   length (executed (snd (execute msim_kbd (\<lambda>_. 0) (\<lambda>_. 0)))) \<le> cmdcount msim_kbd \<and>
   cmdcount msim_kbd = 1"
  using execution_in_array_order [of msim_kbd "\<lambda>_. 0" "\<lambda>_. 0"]
  by (simp add: msim_kbd_def)

subsection \<open>Patching and registration in \<open>hda_dev_add\<close>\<close>

text \<open>
  C6, as the code has it. Within one call of \<open>hda_dev_add\<close>, every mutation of the
  command list and of the range array occurs before \<open>register_interrupt_handler\<close> is
  invoked, and the call does not mutate them afterwards: the program handed to the
  registration already has the range base and the addresses of the \<open>READ\<close> and the
  \<open>WRITE\<close> patched, at return the globals still hold the program as it was
  registered, and a call that does not reach the registration leaves the globals as
  they were.
\<close>

theorem hda_dev_add_patches_before_registration:
  assumes "hda_reachable L g"
  shows "(hda_registered (hda_dev_add L env g) = None \<longrightarrow>
            hda_globals_after (hda_dev_add L env g) = g) \<and>
         (\<forall>irq code. hda_registered (hda_dev_add L env g) = Some (irq, code) \<longrightarrow>
            hdaudio_irq_code (hda_globals_after (hda_dev_add L env g)) = code \<and>
            map base (ranges code) = [fst (mem_ranges env ! 0)] \<and>
            cmds code ! 0 = CMD_READ Bytes1 (fst (mem_ranges env ! 0) + offsetof_rirbsts L) 2 \<and>
            cmds code ! 3 =
              CMD_WRITE Bytes1 (fst (mem_ranges env ! 0) + offsetof_rirbsts L) (Immediate 0x01))"
proof -
  from hda_reachable_shape [OF assms]
  obtain b r0 r3 where sh: "hdaudio_irq_pio_ranges g = [\<lparr>base = b, size = 8192\<rparr>]"
     "hdaudio_irq_commands g =
       [CMD_READ Bytes1 r0 2, CMD_AND 2 0x01 3, CMD_PREDICATE 3 0x01,
        CMD_WRITE Bytes1 r3 (Immediate 0x01), CMD_ACCEPT]" by blast
  from hda_dev_add_shape [OF sh, of L env]
  show ?thesis by (auto simp: hdaudio_irq_code_def)
qed

theorem hda_dev_add_patches_before_registration_witness:
  "hda_reachable \<lparr>sizeof_hda_regs = 8192, offsetof_rirbsts = 0x5D :: 32 word\<rparr> hda_globals_init \<and>
   hda_registered (hda_dev_add \<lparr>sizeof_hda_regs = 8192, offsetof_rirbsts = 0x5D :: 32 word\<rparr>
       \<lparr>dev_data_alloc_ok = True, parent_sess_ok = True, hw_res_rc = EOK,
        mem_ranges = [(0xFEBF0000, 16384)], irqs = [11], pio_enable_rc = EOK,
        register_rc = EOK, ctl_init_ok = True, hda_fun_create_ok = True, hda_fun_bind_rc = EOK\<rparr>
       hda_globals_init) =
     Some (11,
       \<lparr>rangecount = 1, ranges = [\<lparr>base = 0xFEBF0000, size = 8192\<rparr>], cmdcount = 5,
        cmds = [CMD_READ Bytes1 0xFEBF005D 2, CMD_AND 2 0x01 3, CMD_PREDICATE 3 0x01,
                CMD_WRITE Bytes1 0xFEBF005D (Immediate 0x01), CMD_ACCEPT]\<rparr>) \<and>
   hdaudio_irq_code (hda_globals_after (hda_dev_add
       \<lparr>sizeof_hda_regs = 8192, offsetof_rirbsts = 0x5D :: 32 word\<rparr>
       \<lparr>dev_data_alloc_ok = True, parent_sess_ok = True, hw_res_rc = EOK,
        mem_ranges = [(0xFEBF0000, 16384)], irqs = [11], pio_enable_rc = EOK,
        register_rc = EOK, ctl_init_ok = True, hda_fun_create_ok = True, hda_fun_bind_rc = EOK\<rparr>
       hda_globals_init)) =
     \<lparr>rangecount = 1, ranges = [\<lparr>base = 0xFEBF0000, size = 8192\<rparr>], cmdcount = 5,
      cmds = [CMD_READ Bytes1 0xFEBF005D 2, CMD_AND 2 0x01 3, CMD_PREDICATE 3 0x01,
              CMD_WRITE Bytes1 0xFEBF005D (Immediate 0x01), CMD_ACCEPT]\<rparr> \<and>
   hda_registered (hda_dev_add \<lparr>sizeof_hda_regs = 8192, offsetof_rirbsts = 0x5D :: 32 word\<rparr>
       \<lparr>dev_data_alloc_ok = True, parent_sess_ok = True, hw_res_rc = EOK,
        mem_ranges = [(0xFEBF0000, 16384)], irqs = [], pio_enable_rc = EOK,
        register_rc = EOK, ctl_init_ok = True, hda_fun_create_ok = True, hda_fun_bind_rc = EOK\<rparr>
       hda_globals_init) = None \<and>
   hda_globals_after (hda_dev_add \<lparr>sizeof_hda_regs = 8192, offsetof_rirbsts = 0x5D :: 32 word\<rparr>
       \<lparr>dev_data_alloc_ok = True, parent_sess_ok = True, hw_res_rc = EOK,
        mem_ranges = [(0xFEBF0000, 16384)], irqs = [], pio_enable_rc = EOK,
        register_rc = EOK, ctl_init_ok = True, hda_fun_create_ok = True, hda_fun_bind_rc = EOK\<rparr>
       hda_globals_init) = hda_globals_init"
proof -
  let ?L = "\<lparr>sizeof_hda_regs = 8192, offsetof_rirbsts = 0x5D :: 32 word\<rparr>"
  let ?E = "\<lparr>dev_data_alloc_ok = True, parent_sess_ok = True, hw_res_rc = EOK,
        mem_ranges = [(0xFEBF0000 :: 32 word, 16384)], irqs = [11], pio_enable_rc = EOK,
        register_rc = EOK, ctl_init_ok = True, hda_fun_create_ok = True, hda_fun_bind_rc = EOK\<rparr>"
  let ?F = "\<lparr>dev_data_alloc_ok = True, parent_sess_ok = True, hw_res_rc = EOK,
        mem_ranges = [(0xFEBF0000 :: 32 word, 16384)], irqs = [], pio_enable_rc = EOK,
        register_rc = EOK, ctl_init_ok = True, hda_fun_create_ok = True, hda_fun_bind_rc = EOK\<rparr>"
  let ?C = "\<lparr>rangecount = 1, ranges = [\<lparr>base = 0xFEBF0000 :: 32 word, size = 8192\<rparr>], cmdcount = 5,
        cmds = [CMD_READ Bytes1 0xFEBF005D 2, CMD_AND 2 0x01 3, CMD_PREDICATE 3 0x01,
                CMD_WRITE Bytes1 0xFEBF005D (Immediate 0x01), CMD_ACCEPT]\<rparr>"
  have r: "hda_reachable ?L hda_globals_init" by (rule hda_reachable.initial)
  have s: "hda_registered (hda_dev_add ?L ?E hda_globals_init) = Some (11, ?C)"
    by (simp add: hda_dev_add_def hdaudio_irq_code_def hda_globals_init_def
        rirbsts_intfl_bit_def Let_def)
  have n: "hda_registered (hda_dev_add ?L ?F hda_globals_init) = None"
    by (simp add: hda_dev_add_def)
  note t1 = hda_dev_add_patches_before_registration [OF r, of ?E, THEN conjunct2, rule_format,
      OF s, THEN conjunct1]
  note t2 = hda_dev_add_patches_before_registration [OF r, of ?F, THEN conjunct1, rule_format,
      OF n]
  show ?thesis using r s n t1 t2 by simp
qed

text \<open>
  Where the claim, as stated, fails: the arrays are globals, and the framework calls
  \<open>hda_dev_add\<close> for every device. After the program of a first device (at
  \<open>0xFEBF0000\<close>) is registered, the call for a second device (at \<open>0xFEBE0000\<close>)
  patches the same arrays.
\<close>

theorem hda_dev_add_patches_before_registration_counterexample:
  "hda_registered (hda_dev_add \<lparr>sizeof_hda_regs = 8192, offsetof_rirbsts = 0x5D :: 32 word\<rparr>
       \<lparr>dev_data_alloc_ok = True, parent_sess_ok = True, hw_res_rc = EOK,
        mem_ranges = [(0xFEBF0000, 16384)], irqs = [11], pio_enable_rc = EOK,
        register_rc = EOK, ctl_init_ok = True, hda_fun_create_ok = True, hda_fun_bind_rc = EOK\<rparr>
       hda_globals_init) =
     Some (11,
       \<lparr>rangecount = 1, ranges = [\<lparr>base = 0xFEBF0000, size = 8192\<rparr>], cmdcount = 5,
        cmds = [CMD_READ Bytes1 0xFEBF005D 2, CMD_AND 2 0x01 3, CMD_PREDICATE 3 0x01,
                CMD_WRITE Bytes1 0xFEBF005D (Immediate 0x01), CMD_ACCEPT]\<rparr>) \<and>
   hdaudio_irq_code (hda_globals_after (hda_dev_add
       \<lparr>sizeof_hda_regs = 8192, offsetof_rirbsts = 0x5D :: 32 word\<rparr>
       \<lparr>dev_data_alloc_ok = True, parent_sess_ok = True, hw_res_rc = EOK,
        mem_ranges = [(0xFEBE0000, 16384)], irqs = [10], pio_enable_rc = EOK,
        register_rc = EOK, ctl_init_ok = True, hda_fun_create_ok = True, hda_fun_bind_rc = EOK\<rparr>
       (hda_globals_after (hda_dev_add
          \<lparr>sizeof_hda_regs = 8192, offsetof_rirbsts = 0x5D :: 32 word\<rparr>
          \<lparr>dev_data_alloc_ok = True, parent_sess_ok = True, hw_res_rc = EOK,
           mem_ranges = [(0xFEBF0000, 16384)], irqs = [11], pio_enable_rc = EOK,
           register_rc = EOK, ctl_init_ok = True, hda_fun_create_ok = True,
           hda_fun_bind_rc = EOK\<rparr>
          hda_globals_init)))) =
     \<lparr>rangecount = 1, ranges = [\<lparr>base = 0xFEBE0000, size = 8192\<rparr>], cmdcount = 5,
      cmds = [CMD_READ Bytes1 0xFEBE005D 2, CMD_AND 2 0x01 3, CMD_PREDICATE 3 0x01,
              CMD_WRITE Bytes1 0xFEBE005D (Immediate 0x01), CMD_ACCEPT]\<rparr> \<and>
   \<lparr>rangecount = 1, ranges = [\<lparr>base = 0xFEBE0000 :: 32 word, size = 8192\<rparr>], cmdcount = 5,
    cmds = [CMD_READ Bytes1 0xFEBE005D 2, CMD_AND 2 0x01 3, CMD_PREDICATE 3 0x01,
            CMD_WRITE Bytes1 0xFEBE005D (Immediate 0x01), CMD_ACCEPT]\<rparr> \<noteq>
   \<lparr>rangecount = 1, ranges = [\<lparr>base = 0xFEBF0000, size = 8192\<rparr>], cmdcount = 5,
    cmds = [CMD_READ Bytes1 0xFEBF005D 2, CMD_AND 2 0x01 3, CMD_PREDICATE 3 0x01,
            CMD_WRITE Bytes1 0xFEBF005D (Immediate 0x01), CMD_ACCEPT]\<rparr>"
  by (simp add: hda_dev_add_def hdaudio_irq_code_def hda_globals_init_def
      rirbsts_intfl_bit_def Let_def)

subsection \<open>Resource checks of \<open>hda_dev_add\<close>\<close>

text \<open>
  C9. When the hardware resource list has been parsed (the soft state and the parent
  session exist and \<open>hw_res_get_list_parsed\<close> returned \<open>EOK\<close>) and it does not
  hold exactly one memory range, or its one memory range is smaller than
  \<open>sizeof(hda_regs_t)\<close>, \<open>hda_dev_add\<close> returns \<open>EINVAL\<close> and does not reach
  \<open>register_interrupt_handler\<close>.
\<close>

theorem hda_dev_add_EINVAL:
  assumes "dev_data_alloc_ok env" and "parent_sess_ok env" and "hw_res_rc env = EOK"
    and "length (mem_ranges env) \<noteq> 1 \<or>
         (length (mem_ranges env) = 1 \<and> snd (mem_ranges env ! 0) < sizeof_hda_regs L)"
  shows "hda_rc (hda_dev_add L env g) = EINVAL \<and> hda_registered (hda_dev_add L env g) = None"
  using assms by (auto simp: hda_dev_add_def Let_def)

theorem hda_dev_add_EINVAL_witness:
  "hda_rc (hda_dev_add \<lparr>sizeof_hda_regs = 8192, offsetof_rirbsts = 0x5D :: 32 word\<rparr>
       \<lparr>dev_data_alloc_ok = True, parent_sess_ok = True, hw_res_rc = EOK,
        mem_ranges = [(0xFEBF0000, 16384), (0xFEBE0000, 16384)], irqs = [11],
        pio_enable_rc = EOK, register_rc = EOK, ctl_init_ok = True, hda_fun_create_ok = True,
        hda_fun_bind_rc = EOK\<rparr>
       hda_globals_init) = EINVAL \<and>
   hda_registered (hda_dev_add \<lparr>sizeof_hda_regs = 8192, offsetof_rirbsts = 0x5D :: 32 word\<rparr>
       \<lparr>dev_data_alloc_ok = True, parent_sess_ok = True, hw_res_rc = EOK,
        mem_ranges = [(0xFEBF0000, 16384), (0xFEBE0000, 16384)], irqs = [11],
        pio_enable_rc = EOK, register_rc = EOK, ctl_init_ok = True, hda_fun_create_ok = True,
        hda_fun_bind_rc = EOK\<rparr>
       hda_globals_init) = None \<and>
   hda_rc (hda_dev_add \<lparr>sizeof_hda_regs = 8192, offsetof_rirbsts = 0x5D :: 32 word\<rparr>
       \<lparr>dev_data_alloc_ok = True, parent_sess_ok = True, hw_res_rc = EOK,
        mem_ranges = [(0xFEBF0000, 4096)], irqs = [11],
        pio_enable_rc = EOK, register_rc = EOK, ctl_init_ok = True, hda_fun_create_ok = True,
        hda_fun_bind_rc = EOK\<rparr>
       hda_globals_init) = EINVAL \<and>
   hda_registered (hda_dev_add \<lparr>sizeof_hda_regs = 8192, offsetof_rirbsts = 0x5D :: 32 word\<rparr>
       \<lparr>dev_data_alloc_ok = True, parent_sess_ok = True, hw_res_rc = EOK,
        mem_ranges = [(0xFEBF0000, 4096)], irqs = [11],
        pio_enable_rc = EOK, register_rc = EOK, ctl_init_ok = True, hda_fun_create_ok = True,
        hda_fun_bind_rc = EOK\<rparr>
       hda_globals_init) = None"
proof -
  let ?L = "\<lparr>sizeof_hda_regs = 8192, offsetof_rirbsts = 0x5D :: 32 word\<rparr>"
  let ?E2 = "\<lparr>dev_data_alloc_ok = True, parent_sess_ok = True, hw_res_rc = EOK,
        mem_ranges = [(0xFEBF0000 :: 32 word, 16384), (0xFEBE0000, 16384)], irqs = [11],
        pio_enable_rc = EOK, register_rc = EOK, ctl_init_ok = True, hda_fun_create_ok = True,
        hda_fun_bind_rc = EOK\<rparr>"
  let ?Es = "\<lparr>dev_data_alloc_ok = True, parent_sess_ok = True, hw_res_rc = EOK,
        mem_ranges = [(0xFEBF0000 :: 32 word, 4096)], irqs = [11],
        pio_enable_rc = EOK, register_rc = EOK, ctl_init_ok = True, hda_fun_create_ok = True,
        hda_fun_bind_rc = EOK\<rparr>"
  have a: "hda_rc (hda_dev_add ?L ?E2 hda_globals_init) = EINVAL \<and>
           hda_registered (hda_dev_add ?L ?E2 hda_globals_init) = None"
    by (rule hda_dev_add_EINVAL) simp_all
  have b: "hda_rc (hda_dev_add ?L ?Es hda_globals_init) = EINVAL \<and>
           hda_registered (hda_dev_add ?L ?Es hda_globals_init) = None"
    by (rule hda_dev_add_EINVAL) simp_all
  from a b show ?thesis by blast
qed

subsection \<open>Interval overlap\<close>

text \<open>
  C8, as the code has it. \<open>overlaps(s1, sz1, s2, sz2)\<close> returns nonzero if and only if
  \<open>s1 < s2 + sz2\<close> and \<open>s2 < s1 + sz1\<close>, where both sums are taken modulo \<open>2^w\<close>,
  \<open>w\<close> the width of the machine word. An interval of size 0 does not overlap itself;
  it overlaps exactly the intervals that start below its start and whose (wrapped) end
  lies above its start.
\<close>

theorem overlaps_iff:
  fixes s1 :: "'a::len word"
  shows "(overlaps s1 sz1 s2 sz2 \<noteq> 0 \<longleftrightarrow>
            unat s1 < (unat s2 + unat sz2) mod 2 ^ LENGTH('a) \<and>
            unat s2 < (unat s1 + unat sz1) mod 2 ^ LENGTH('a)) \<and>
         overlaps s1 0 s1 0 = 0 \<and>
         (overlaps s1 0 s2 sz2 \<noteq> 0 \<longleftrightarrow>
            unat s2 < unat s1 \<and> unat s1 < (unat s2 + unat sz2) mod 2 ^ LENGTH('a))"
  by (auto simp add: overlaps_def Let_def word_less_nat_alt unat_word_ariths)

theorem overlaps_iff_witness:
  "overlaps (0x1000 :: 32 word) 0x100 0x10FF 0x10 \<noteq> 0 \<and>
   unat (0x1000 :: 32 word) < (unat (0x10FF :: 32 word) + unat (0x10 :: 32 word)) mod 2 ^ LENGTH(32) \<and>
   overlaps (0xFFFFFFF0 :: 32 word) 0x20 0xFFFFFFF8 0x4 = 0 \<and>
   \<not> unat (0xFFFFFFF8 :: 32 word) < (unat (0xFFFFFFF0 :: 32 word) + unat (0x20 :: 32 word)) mod 2 ^ LENGTH(32)"
  using overlaps_iff [of "0x1000 :: 32 word" "0x100" "0x10FF" "0x10"]
    overlaps_iff [of "0xFFFFFFF0 :: 32 word" "0x20" "0xFFFFFFF8" "0x4"]
  by simp

theorem overlaps_iff_counterexample:
  "overlaps (5 :: 32 word) 0 3 10 = 1"
  by (simp add: overlaps_def)

subsection \<open>Keyboard consumer\<close>

text \<open>
  C7. For every scan code, \<open>kbd_arch_process\<close> returns 1, and the calls it makes are
  exactly one call of \<open>key_buffer_push\<close>, with that scan code as its argument: the
  calls recorded before are kept and one entry is added.
\<close>

theorem kbd_arch_process_pushes_once:
  "fst (kbd_arch_process scan_code calls) = 1 \<and>
   snd (kbd_arch_process scan_code calls) = calls @ [Key_buffer_push scan_code] \<and>
   length (snd (kbd_arch_process scan_code calls)) = length calls + 1"
  by (simp add: kbd_arch_process_def)

theorem kbd_arch_process_pushes_once_witness:
  "fst (kbd_arch_process 0x1C []) = 1 \<and>
   snd (kbd_arch_process 0x1C []) = [Key_buffer_push 0x1C] \<and>
   snd (kbd_arch_process 0xFFFFFFFF [Key_buffer_push 0x1C]) =
     [Key_buffer_push 0x1C, Key_buffer_push 0xFFFFFFFF]"
  using kbd_arch_process_pushes_once [of "0x1C" "[]"]
    kbd_arch_process_pushes_once [of "0xFFFFFFFF" "[Key_buffer_push 0x1C]"]
  by simp

subsection \<open>The platform driver's return code\<close>

lemma rootpc_add_functions_fails:
  "\<not> fst (rootpc_add_functions env) \<longleftrightarrow>
     \<not> fun_create_ok env \<or> \<not> create_match_id_ok env \<or> fun_bind_rc env \<noteq> EOK"
  by (simp add: rootpc_add_functions_def rootpc_add_fun_def rootpc_add_fun_failure_def Let_def)

text \<open>
  C10. \<open>rootpc_add_device\<close> returns \<open>EOK\<close> for every device and whatever the
  framework calls return. When \<open>rootpc_add_functions\<close> fails (the function
  \<open>pci0\<close> cannot be created, its match id cannot be allocated, or it cannot be
  bound), and only then, the message that the functions could not be added is printed;
  the return code is \<open>EOK\<close> all the same.
\<close>

theorem rootpc_add_device_always_EOK:
  "fst (rootpc_add_device env handle) = EOK \<and>
   (Print_failed_to_add_functions \<in> set (snd (rootpc_add_device env handle)) \<longleftrightarrow>
      \<not> fst (rootpc_add_functions env))"
  by (auto simp add: rootpc_add_device_def rootpc_add_functions_def rootpc_add_fun_def
      rootpc_add_fun_failure_def Let_def split: prod.splits if_splits)

theorem rootpc_add_device_always_EOK_witness:
  "\<not> fst (rootpc_add_functions \<lparr>fun_create_ok = True, create_match_id_ok = True, fun_bind_rc = EIO\<rparr>) \<and>
   fst (rootpc_add_device \<lparr>fun_create_ok = True, create_match_id_ok = True, fun_bind_rc = EIO\<rparr> 7) = EOK \<and>
   Print_failed_to_add_functions \<in>
     set (snd (rootpc_add_device \<lparr>fun_create_ok = True, create_match_id_ok = True, fun_bind_rc = EIO\<rparr> 7)) \<and>
   fst (rootpc_add_device \<lparr>fun_create_ok = False, create_match_id_ok = True, fun_bind_rc = EOK\<rparr> 7) = EOK"
  using rootpc_add_device_always_EOK
    [of "\<lparr>fun_create_ok = True, create_match_id_ok = True, fun_bind_rc = EIO\<rparr>" 7]
    rootpc_add_device_always_EOK
    [of "\<lparr>fun_create_ok = False, create_match_id_ok = True, fun_bind_rc = EOK\<rparr>" 7]
  by (simp add: rootpc_add_functions_fails)

end
